theory Spec2Isabelle
  imports Main "HOL-Library.AList" "HOL-Library.Product_Lexorder"
begin

section \<open>Dates and timestamps\<close>

text \<open>
  The exceptions the scraper can meet. Only \<open>RequestException\<close> (with its message) is
  caught by the per-day \<^verbatim>\<open>try\<close> of \<^verbatim>\<open>_download_df\<close>; every other one leaves the run.
\<close>

datatype error =
    RequestException string
  | ValueError
  | IndexError
  | AttributeError
  | KeyError
  | OverflowError
  | IllegalMonthError

text \<open>
  A \<^verbatim>\<open>datetime.datetime\<close>. Seconds and microseconds are zero in every value the
  scraper builds and are left out. \<open>utcoffset\<close> is the offset in minutes of a
  timezone-aware value, \<open>None\<close> for a naive one.
\<close>

record datetime =
  year :: int
  month :: int
  day :: int
  hour :: int
  minute :: int
  utcoffset :: "int option"

definition is_leap :: "int \<Rightarrow> bool" where
  "is_leap y = (y mod 4 = 0 \<and> (y mod 100 \<noteq> 0 \<or> y mod 400 = 0))"

text \<open>The second component of \<^verbatim>\<open>calendar.monthrange(year, month)\<close>, for a month in 1..12.\<close>

definition days_in_month :: "int \<Rightarrow> int \<Rightarrow> int" where
  "days_in_month y m =
     (if m = 2 then (if is_leap y then 29 else 28)
      else if m = 4 \<or> m = 6 \<or> m = 9 \<or> m = 11 then 30
      else 31)"

text \<open>The dates \<^verbatim>\<open>datetime.datetime(y, m, d)\<close> accepts (MINYEAR = 1, MAXYEAR = 9999).\<close>

definition valid_date :: "int \<Rightarrow> int \<Rightarrow> int \<Rightarrow> bool" where
  "valid_date y m d =
     (1 \<le> y \<and> y \<le> 9999 \<and> 1 \<le> m \<and> m \<le> 12 \<and> 1 \<le> d \<and> d \<le> days_in_month y m)"

text \<open>\<^verbatim>\<open>datetime.datetime(year, month, day)\<close>: a naive midnight, or \<^verbatim>\<open>ValueError\<close>.\<close>

definition mk_datetime :: "int \<Rightarrow> int \<Rightarrow> int \<Rightarrow> error + datetime" where
  "mk_datetime y m d =
     (if valid_date y m d
      then Inr \<lparr>year = y, month = m, day = d, hour = 0, minute = 0, utcoffset = None\<rparr>
      else Inl ValueError)"

text \<open>
  Comparison of two datetimes of the same offset (all timestamps of one run carry
  \<^verbatim>\<open>+0800\<close>, the dates handed to the fetcher are naive): field by field.
\<close>

definition dt_key :: "datetime \<Rightarrow> int \<times> int \<times> int \<times> int \<times> int" where
  "dt_key t = (year t, month t, day t, hour t, minute t)"

definition dt_less :: "datetime \<Rightarrow> datetime \<Rightarrow> bool" where
  "dt_less a b = (dt_key a < dt_key b)"

definition dt_le :: "datetime \<Rightarrow> datetime \<Rightarrow> bool" where
  "dt_le a b = (dt_key a \<le> dt_key b)"

text \<open>The same time on the next calendar day.\<close>

definition next_day :: "datetime \<Rightarrow> datetime" where
  "next_day t =
     (if day t < days_in_month (year t) (month t) then t\<lparr>day := day t + 1\<rparr>
      else if month t < 12 then t\<lparr>month := month t + 1, day := 1\<rparr>
      else t\<lparr>year := year t + 1, month := 1, day := 1\<rparr>)"

text \<open>
  \<^verbatim>\<open>dt + datetime.timedelta(days=1)\<close> on a \<^verbatim>\<open>datetime.datetime\<close>:
  \<^verbatim>\<open>OverflowError\<close> past 9999-12-31.
\<close>

definition add_one_day :: "datetime \<Rightarrow> error + datetime" where
  "add_one_day t =
     (if year (next_day t) \<le> 9999 then Inr (next_day t) else Inl OverflowError)"

text \<open>The timezone-aware timestamp \<^verbatim>\<open>y-m-d h:00 +08:00\<close>.\<close>

definition stamp :: "int \<Rightarrow> int \<Rightarrow> int \<Rightarrow> int \<Rightarrow> datetime" where
  "stamp y m d h =
     \<lparr>year = y, month = m, day = d, hour = h, minute = 0, utcoffset = Some 480\<rparr>"

section \<open>Timestamp corrector: \<^verbatim>\<open>_to_datetime\<close>\<close>

text \<open>
  Text is a list of characters, each a code point below 256. Whitespace as \<^verbatim>\<open>\s\<close> and
  \<^verbatim>\<open>str.strip\<close> see it there (\<^verbatim>\<open>str.isspace\<close>): tab, line feed, vertical tab,
  form feed, carriage return, the four separators 28..31, the blank, next line (0x85) and
  the no-break space (0xA0).
\<close>

definition is_space :: "char \<Rightarrow> bool" where
  "is_space c = (c \<in> set [CHR 0x09, CHR 0x0A, CHR 0x0B, CHR 0x0C, CHR 0x0D,
                           CHR 0x1C, CHR 0x1D, CHR 0x1E, CHR 0x1F, CHR '' '',
                           CHR 0x85, CHR 0xA0])"

definition strip :: "string \<Rightarrow> string" where
  "strip s = rev (dropWhile is_space (rev (dropWhile is_space s)))"

text \<open>
  The directive \<^verbatim>\<open>%I\<close>: the hour token \<^verbatim>\<open>1[0-2]|0[1-9]|[1-9]\<close> and its value.
\<close>

definition parse_I :: "string \<Rightarrow> int option" where
  "parse_I s =
     (case s of
        [a] \<Rightarrow> if a \<in> set ''123456789'' then Some (int (of_char a) - 48) else None
      | [a, b] \<Rightarrow>
          if a = CHR ''1'' \<and> b \<in> set ''012'' then Some (10 + (int (of_char b) - 48))
          else if a = CHR ''0'' \<and> b \<in> set ''123456789'' then Some (int (of_char b) - 48)
          else None
      | _ \<Rightarrow> None)"

text \<open>
  The directive \<^verbatim>\<open>%p\<close> (locale \<^verbatim>\<open>am\<close>/\<^verbatim>\<open>pm\<close>, matched ignoring case):
  \<open>False\<close> for am, \<open>True\<close> for pm.
\<close>

definition parse_p :: "string \<Rightarrow> bool option" where
  "parse_p s =
     (case s of
        [a, b] \<Rightarrow>
          if a \<in> set ''aA'' \<and> b \<in> set ''mM'' then Some False
          else if a \<in> set ''pP'' \<and> b \<in> set ''mM'' then Some True
          else None
      | _ \<Rightarrow> None)"

text \<open>
  What \<^verbatim>\<open>strptime\<close> with \<^verbatim>\<open>'%Y-%m-%d %I%p %z'\<close> reads from the part of the date
  string that \<^verbatim>\<open>hour_text\<close> fills, and the 24-hour value it computes. The two blanks of
  the format around \<^verbatim>\<open>%I%p\<close> each match a run of whitespace, so whitespace around the
  token is absorbed; the token itself is the hour followed at once by the two letters.
  12am is hour 0, 12pm is hour 12, other pm hours gain 12.
\<close>

definition parse_hour_text :: "string \<Rightarrow> int option" where
  "parse_hour_text hour_text =
     (let tok = strip hour_text; n = length tok in
      case parse_p (drop (n - 2) tok) of
        None \<Rightarrow> None
      | Some pm \<Rightarrow>
          (case parse_I (take (n - 2) tok) of
             None \<Rightarrow> None
           | Some h \<Rightarrow>
               Some (if pm then (if h \<noteq> 12 then h + 12 else h)
                     else (if h = 12 then 0 else h))))"

text \<open>
  \<^verbatim>\<open>_to_datetime(year, month, day, hour_text)\<close> with the default \<^verbatim>\<open>timezone='+0800'\<close>
  (its only call passes none). The date string is the three numbers formatted in decimal,
  the hour text and the offset. \<^verbatim>\<open>strptime\<close> raises \<^verbatim>\<open>ValueError\<close> unless the year
  has exactly four digits (\<^verbatim>\<open>%Y\<close>), month and day make a date of the calendar and the
  hour text parses. A parsed hour of 0 is moved one day forward.
\<close>

definition to_datetime :: "int \<Rightarrow> int \<Rightarrow> int \<Rightarrow> string \<Rightarrow> error + datetime" where
  "to_datetime y m d hour_text =
     (if \<not> (1000 \<le> y \<and> valid_date y m d) then Inl ValueError
      else case parse_hour_text hour_text of
        None \<Rightarrow> Inl ValueError
      | Some h \<Rightarrow>
          (let dt = \<lparr>year = y, month = m, day = d, hour = h, minute = 0,
                      utcoffset = Some 480\<rparr>
           in if hour dt = 0 then add_one_day dt else Inr dt))"

section \<open>Day fetcher: \<^verbatim>\<open>_get_nea_dict\<close>\<close>

definition psi_headers :: "string list" where
  "psi_headers = [''PSI-North'', ''PSI-South'', ''PSI-East'', ''PSI-West'',
                  ''PSI-Central'', ''PSI-Overall'']"

definition pm25_headers :: "string list" where
  "pm25_headers = [''PM2.5-North'', ''PM2.5-South'', ''PM2.5-East'', ''PM2.5-West'',
                   ''PM2.5-Central'', ''PM2.5-Overall'']"

definition pm_subsume_date :: datetime where
  "pm_subsume_date =
     \<lparr>year = 2014, month = 4, day = 1, hour = 0, minute = 0, utcoffset = None\<rparr>"

text \<open>The column list \<^verbatim>\<open>headers\<close> that \<^verbatim>\<open>_get_nea_dict\<close> builds for the date it is given.\<close>

definition nea_headers :: "datetime \<Rightarrow> string list" where
  "nea_headers dt_ymd =
     (if dt_less dt_ymd pm_subsume_date then psi_headers @ pm25_headers else psi_headers)"

text \<open>
  A reading row: the \<^verbatim>\<open>OrderedDict\<close> from column name to cell text. A page: the
  \<^verbatim>\<open><tr>\<close> rows of the first \<^verbatim>\<open><table>\<close> of the response, each the texts of its
  \<^verbatim>\<open><td>\<close> cells; \<open>None\<close> when the document has no table. The network is a function
  from the three numbers substituted into \<^verbatim>\<open>NEA_URL\<close> to the page, or to the message of
  the \<^verbatim>\<open>RequestException\<close> that \<^verbatim>\<open>requests.get\<close> raised.
\<close>

type_synonym row = "(string \<times> string) list"

type_synonym page = "string list list option"

type_synonym fetcher = "int \<times> int \<times> int \<Rightarrow> string + page"

text \<open>
  The inner loop \<^verbatim>\<open>for index, header in enumerate(headers, 1)\<close>: \<^verbatim>\<open>items[index]\<close>
  raises \<^verbatim>\<open>IndexError\<close> when the row has no such cell.
\<close>

fun read_cells :: "string list \<Rightarrow> nat \<Rightarrow> string list \<Rightarrow> row \<Rightarrow> error + row" where
  "read_cells items index [] acc = Inr acc"
| "read_cells items index (header # hs) acc =
     (if index < length items
      then read_cells items (index + 1) hs (AList.update header (strip (items ! index)) acc)
      else Inl IndexError)"

text \<open>
  The outer loop over the data rows: \<^verbatim>\<open>items[0]\<close> is the hour text (not stripped); a
  repeated hour text overwrites the earlier row and keeps its place.
\<close>

fun read_rows ::
  "string list \<Rightarrow> string list list \<Rightarrow> (string \<times> row) list \<Rightarrow> error + (string \<times> row) list"
where
  "read_rows headers [] result = Inr result"
| "read_rows headers (items # rest) result =
     (case items of
        [] \<Rightarrow> Inl IndexError
      | hour_text # _ \<Rightarrow>
          (case read_cells items 1 headers [] of
             Inl e \<Rightarrow> Inl e
           | Inr r \<Rightarrow> read_rows headers rest (AList.update hour_text r result)))"

definition get_nea_dict ::
  "fetcher \<Rightarrow> datetime \<Rightarrow> error + ((string \<times> row) list \<times> string list)"
where
  "get_nea_dict fetch dt_ymd =
     (case fetch (year dt_ymd, month dt_ymd, day dt_ymd) of
        Inl cause \<Rightarrow> Inl (RequestException cause)
      | Inr None \<Rightarrow> Inl AttributeError
      | Inr (Some rows) \<Rightarrow>
          (case read_rows (nea_headers dt_ymd) (drop 2 rows) [] of
             Inl e \<Rightarrow> Inl e
           | Inr result \<Rightarrow> Inr (result, nea_headers dt_ymd)))"

section \<open>Range collector: \<^verbatim>\<open>_download_df\<close>\<close>

text \<open>
  What one run does to the outside, in order: the progress line of a month, the GET of a
  day, the error line of a day whose GET failed (date and cause).
\<close>

datatype event =
    Processing int int
  | Get int int int
  | ErrorMsg int int int string

text \<open>The two variables the loops update: \<^verbatim>\<open>result_odict\<close> and \<^verbatim>\<open>df_headers\<close>.\<close>

record collected =
  result_odict :: "(datetime \<times> row) list"
  df_headers :: "string list"

text \<open>
  The loop \<^verbatim>\<open>for hour_text in data\<close>: a \<^verbatim>\<open>ValueError\<close> or \<^verbatim>\<open>OverflowError\<close> of
  \<^verbatim>\<open>_to_datetime\<close> leaves it.
\<close>

fun insert_rows ::
  "int \<Rightarrow> int \<Rightarrow> int \<Rightarrow> (string \<times> row) list \<Rightarrow> (datetime \<times> row) list
     \<Rightarrow> error + (datetime \<times> row) list"
where
  "insert_rows y m d [] od = Inr od"
| "insert_rows y m d ((hour_text, r) # rest) od =
     (case to_datetime y m d hour_text of
        Inl e \<Rightarrow> Inl e
      | Inr timestamp \<Rightarrow> insert_rows y m d rest (AList.update timestamp r od))"

text \<open>
  The body of the day loop. Only a \<^verbatim>\<open>RequestException\<close> is caught: the error line is
  printed and the two variables are as before.
\<close>

definition process_day ::
  "fetcher \<Rightarrow> int \<Rightarrow> int \<Rightarrow> int \<Rightarrow> collected \<Rightarrow> error + (event list \<times> collected)"
where
  "process_day fetch y m d c =
     (case mk_datetime y m d of
        Inl e \<Rightarrow> Inl e
      | Inr ymd \<Rightarrow>
          (case get_nea_dict fetch ymd of
             Inl e \<Rightarrow>
               (case e of
                  RequestException cause \<Rightarrow> Inr ([Get y m d, ErrorMsg y m d cause], c)
                | _ \<Rightarrow> Inl e)
           | Inr (data, headers) \<Rightarrow>
               (let hs = (if length headers > length (df_headers c) then headers
                          else df_headers c)
                in case insert_rows y m d data (result_odict c) of
                     Inl e \<Rightarrow> Inl e
                   | Inr od \<Rightarrow> Inr ([Get y m d], \<lparr>result_odict = od, df_headers = hs\<rparr>))))"

text \<open>
  The nested loops, flattened in the order they run: for each year of
  \<^verbatim>\<open>range(year_start, year_end + 1)\<close> and each month of
  \<^verbatim>\<open>range(month_start, month_end + 1)\<close>, the month's head (progress line,
  \<^verbatim>\<open>calendar.monthrange\<close>) and then its days \<^verbatim>\<open>range(first_day, last_day + 1)\<close>.
\<close>

datatype step = Month int int | Day int int int

definition month_steps ::
  "int \<Rightarrow> int \<Rightarrow> int \<Rightarrow> int \<Rightarrow> int \<Rightarrow> int option \<Rightarrow> int \<Rightarrow> int \<Rightarrow> step list"
where
  "month_steps year_start year_end month_start month_end day_start day_end y m =
     (let num_days = days_in_month y m;
          first_day = (if y = year_start \<and> m = month_start then day_start else 1);
          last_day = (case day_end of
                        None \<Rightarrow> num_days
                      | Some e \<Rightarrow> if y = year_end \<and> m = month_end then e else num_days)
      in Month y m # (if 1 \<le> m \<and> m \<le> 12 then map (Day y m) [first_day..last_day] else []))"

definition schedule ::
  "int \<Rightarrow> int \<Rightarrow> int \<Rightarrow> int \<Rightarrow> int \<Rightarrow> int option \<Rightarrow> step list"
where
  "schedule year_start year_end month_start month_end day_start day_end =
     concat (map (\<lambda>y.
       concat (map (month_steps year_start year_end month_start month_end day_start day_end y)
                   [month_start..month_end]))
       [year_start..year_end])"

text \<open>
  A month's head prints when \<^verbatim>\<open>verbose\<close>; \<^verbatim>\<open>calendar.monthrange\<close> raises
  \<^verbatim>\<open>IllegalMonthError\<close> for a month outside 1..12.
\<close>

fun run_step :: "fetcher \<Rightarrow> bool \<Rightarrow> step \<Rightarrow> collected \<Rightarrow> error + (event list \<times> collected)" where
  "run_step fetch verbose (Month y m) c =
     (if 1 \<le> m \<and> m \<le> 12 then Inr (if verbose then [Processing y m] else [], c)
      else Inl IllegalMonthError)"
| "run_step fetch verbose (Day y m d) c = process_day fetch y m d c"

fun run_steps ::
  "fetcher \<Rightarrow> bool \<Rightarrow> step list \<Rightarrow> collected \<Rightarrow> error + (event list \<times> collected)"
where
  "run_steps fetch verbose [] c = Inr ([], c)"
| "run_steps fetch verbose (s # ss) c =
     (case run_step fetch verbose s c of
        Inl e \<Rightarrow> Inl e
      | Inr (evs, c') \<Rightarrow>
          (case run_steps fetch verbose ss c' of
             Inl e \<Rightarrow> Inl e
           | Inr (evs', c'') \<Rightarrow> Inr (evs @ evs', c'')))"

text \<open>
  A table: its column list and its rows in index order, each the timestamp and one cell
  per column (\<open>None\<close> is a missing value).
\<close>

record dataframe =
  columns :: "string list"
  rows :: "(datetime \<times> string option list) list"

text \<open>\<^verbatim>\<open>pd.DataFrame.from_dict(result_odict, orient='index')\<close>: one row per key, one
  column per name that occurs in some row.\<close>

definition from_dict :: "(datetime \<times> row) list \<Rightarrow> dataframe" where
  "from_dict od =
     (let cols = remdups (concat (map (\<lambda>(ts, r). map fst r) od))
      in \<lparr>columns = cols, rows = map (\<lambda>(ts, r). (ts, map (map_of r) cols)) od\<rparr>)"

text \<open>\<^verbatim>\<open>df[df_headers]\<close>: the listed columns in the listed order; \<^verbatim>\<open>KeyError\<close> when
  one of them is no column of the table.\<close>

definition getitem_columns :: "dataframe \<Rightarrow> string list \<Rightarrow> error + dataframe" where
  "getitem_columns df hs =
     (if list_all (\<lambda>h. h \<in> set (columns df)) hs
      then Inr \<lparr>columns = hs,
                rows = map (\<lambda>(ts, vals).
                         (ts, map (\<lambda>h. case map_of (zip (columns df) vals) h of
                                          None \<Rightarrow> None | Some v \<Rightarrow> v) hs))
                       (rows df)\<rparr>
      else Inl KeyError)"

text \<open>
  \<^verbatim>\<open>_download_df\<close>. \<open>fetch\<close> stands for \<^verbatim>\<open>base_url\<close> and the network behind it,
  \<open>today_year\<close> for \<^verbatim>\<open>datetime.datetime.now().year\<close>. The result is the events of the run
  and the table, or the exception that ended the run.
\<close>

definition download_df ::
  "fetcher \<Rightarrow> int \<Rightarrow> int \<Rightarrow> int option \<Rightarrow> int \<Rightarrow> int \<Rightarrow> int \<Rightarrow> int option \<Rightarrow> bool
     \<Rightarrow> error + (event list \<times> dataframe)"
where
  "download_df fetch today_year year_start year_end month_start month_end day_start day_end
       verbose =
     (let year_end' = (case year_end of None \<Rightarrow> today_year | Some e \<Rightarrow> e)
      in case run_steps fetch verbose
                (schedule year_start year_end' month_start month_end day_start day_end)
                \<lparr>result_odict = [], df_headers = []\<rparr> of
           Inl e \<Rightarrow> Inl e
         | Inr (evs, c) \<Rightarrow>
             (case getitem_columns (from_dict (result_odict c)) (df_headers c) of
                Inl e \<Rightarrow> Inl e
              | Inr df \<Rightarrow> Inr (evs, df)))"

section \<open>Exporter: \<^verbatim>\<open>_save_csv_per_day\<close>\<close>

text \<open>\<^verbatim>\<open>df.sort_index()\<close>: a new table, sorted by timestamp; \<open>df\<close> itself is not changed.\<close>

definition sort_index :: "dataframe \<Rightarrow> dataframe" where
  "sort_index df = df\<lparr>rows := sort_key (\<lambda>(ts, vals). dt_key ts) (rows df)\<rparr>"

fun index_min :: "datetime \<Rightarrow> datetime list \<Rightarrow> datetime" where
  "index_min t [] = t"
| "index_min t (u # us) = index_min (if dt_less u t then u else t) us"

fun index_max :: "datetime \<Rightarrow> datetime list \<Rightarrow> datetime" where
  "index_max t [] = t"
| "index_max t (u # us) = index_max (if dt_less t u then u else t) us"

text \<open>\<^verbatim>\<open>str(curr.date())\<close>: the ISO form \<^verbatim>\<open>YYYY-MM-DD\<close>, zero padded.\<close>

definition digit_char :: "int \<Rightarrow> char" where
  "digit_char n = ''0123456789'' ! nat n"

definition iso_date :: "datetime \<Rightarrow> string" where
  "iso_date t =
     [digit_char (year t div 1000), digit_char (year t div 100 mod 10),
      digit_char (year t div 10 mod 10), digit_char (year t mod 10), CHR ''-'',
      digit_char (month t div 10), digit_char (month t mod 10), CHR ''-'',
      digit_char (day t div 10), digit_char (day t mod 10)]"

text \<open>
  The label slice \<^verbatim>\<open>df[curr:until]\<close> on a table whose index ascends: the rows from
  \<open>start\<close> to \<open>stop\<close>, both ends included.
\<close>

definition loc_slice :: "dataframe \<Rightarrow> datetime \<Rightarrow> datetime \<Rightarrow> dataframe" where
  "loc_slice df start stop =
     df\<lparr>rows := filter (\<lambda>(ts, vals). dt_le start ts \<and> dt_le ts stop) (rows df)\<rparr>"

text \<open>
  The \<^verbatim>\<open>while curr_day <= last_day\<close> loop; \<^verbatim>\<open>curr_day + timedelta(days=1)\<close> keeps
  the time of day. \<open>slice\<close> is the table library's label slice
  \<^verbatim>\<open>df[curr:until]\<close>; the result lists the files written, in order, each with its name
  inside \<^verbatim>\<open>save_folder\<close> and the table that \<^verbatim>\<open>to_csv\<close> was called on.
\<close>

function per_day_loop ::
  "(dataframe \<Rightarrow> datetime \<Rightarrow> datetime \<Rightarrow> 'f) \<Rightarrow> dataframe \<Rightarrow> datetime \<Rightarrow> datetime
     \<Rightarrow> (string \<times> 'f) list"
where
  "per_day_loop slice df curr_day last_day =
     (if dt_le curr_day last_day
      then (let curr = curr_day\<lparr>hour := 0\<rparr>;
                until = curr_day\<lparr>hour := 23\<rparr>;
                short_date = iso_date curr @ ''.csv''
            in (short_date, slice df curr until)
               # per_day_loop slice df (next_day curr_day) last_day)
      else [])"
  by pat_completeness auto
termination
  by (relation "measures [\<lambda>(sl, df, c, l). nat (year l + 1 - year c),
                          \<lambda>(sl, df, c, l). nat (12 - month c),
                          \<lambda>(sl, df, c, l). nat (31 - day c)]")
     (auto simp: next_day_def dt_le_def dt_key_def days_in_month_def split: if_splits)

text \<open>
  \<^verbatim>\<open>_save_csv_per_day(df, save_folder)\<close>. \<^verbatim>\<open>os.makedirs\<close> creates the folder
  first; the files are named inside it. The sorted copy that \<^verbatim>\<open>df.sort_index()\<close>
  returns is bound to nothing; minimum, maximum and every slice are taken from \<open>df\<close>. On an
  empty table minimum and maximum are \<^verbatim>\<open>NaT\<close>, the comparison is false and no file is
  written.
\<close>

definition save_csv_per_day ::
  "(dataframe \<Rightarrow> datetime \<Rightarrow> datetime \<Rightarrow> 'f) \<Rightarrow> dataframe \<Rightarrow> (string \<times> 'f) list"
where
  "save_csv_per_day slice df =
     (let sorted_copy = sort_index df in
      case map fst (rows df) of
        [] \<Rightarrow> []
      | t # ts \<Rightarrow> per_day_loop slice df (index_min t ts) (index_max t ts))"

section \<open>The hour label format\<close>

text \<open>
  The format of an hour label in the words of the specification, \<^verbatim>\<open><hour><am|pm>\<close> as in
  \<^verbatim>\<open>1am\<close> and \<^verbatim>\<open>12pm\<close>: an hour from 1 to 12 in decimal, directly followed by
  \<^verbatim>\<open>am\<close> or \<^verbatim>\<open>pm\<close>, and nothing else.
\<close>

definition spec_hours :: "string list" where
  "spec_hours = map (\<lambda>c. [c]) ''123456789'' @ [''10'', ''11'', ''12'']"

definition spec_hour_label :: "string \<Rightarrow> bool" where
  "spec_hour_label s = (s \<in> set (concat (map (\<lambda>h. [h @ ''am'', h @ ''pm'']) spec_hours)))"

text \<open>
  The hour labels that \<^verbatim>\<open>_to_datetime\<close> reads, stated on their own to compare the parser
  with: an hour from 1 to 12 (a one-digit hour may carry a leading zero), directly followed
  by am or pm in either case of each letter, with any whitespace before and after.
\<close>

definition hour_tokens :: "string list" where
  "hour_tokens = map (\<lambda>c. [c]) ''123456789'' @ map (\<lambda>c. [CHR ''0'', c]) ''123456789''
                   @ [''10'', ''11'', ''12'']"

definition meridiem_tokens :: "string list" where
  "meridiem_tokens = [''am'', ''aM'', ''Am'', ''AM'', ''pm'', ''pM'', ''Pm'', ''PM'']"

definition accepted_hour_label :: "string \<Rightarrow> bool" where
  "accepted_hour_label s =
     (\<exists>l h p r. s = l @ h @ p @ r \<and> list_all is_space l \<and> list_all is_space r
        \<and> h \<in> set hour_tokens \<and> p \<in> set meridiem_tokens)"

section \<open>Example pages\<close>

text \<open>
  A page as the site serves it after the cutoff, cut down to two readings: two header
  rows, then one row per hour with the hour text and the six PSI cells.
\<close>

definition psi_page :: page where
  "psi_page = Some
     [[''Time'', ''PSI''],
      [''North'', ''South'', ''East'', ''West'', ''Central'', ''Overall''],
      [''1am'', ''55'', ''54'', ''53'', ''52'', ''51'', ''55''],
      [''12am'', ''65'', ''64'', ''63'', ''62'', ''61'', ''65'']]"

text \<open>The same page with a first reading that has lost four of its cells.\<close>

definition short_row_page :: page where
  "short_row_page = Some
     [[''Time'', ''PSI''],
      [''North'', ''South'', ''East'', ''West'', ''Central'', ''Overall''],
      [''1am'', ''55'', ''54''],
      [''12am'', ''65'', ''64'', ''63'', ''62'', ''61'', ''65'']]"

text \<open>A network on which 2016-01-01 has the short row and every other day is well formed.\<close>

definition short_row_fetch :: fetcher where
  "short_row_fetch ymd = (if ymd = (2016, 1, 1) then Inr short_row_page else Inr psi_page)"

text \<open>A page whose second reading carries an hour label that is no 12-hour time.\<close>

definition bad_label_page :: page where
  "bad_label_page = Some
     [[''Time'', ''PSI''],
      [''North'', ''South'', ''East'', ''West'', ''Central'', ''Overall''],
      [''1am'', ''55'', ''54'', ''53'', ''52'', ''51'', ''55''],
      [''13am'', ''65'', ''64'', ''63'', ''62'', ''61'', ''65'']]"

definition bad_label_fetch :: fetcher where
  "bad_label_fetch ymd = (if ymd = (2016, 1, 1) then Inr bad_label_page else Inr psi_page)"

section \<open>Days that succeed\<close>















section \<open>Properties of the timestamp corrector\<close>

lemmas calendar_defs = valid_date_def days_in_month_def is_leap_def

lemmas hour_text_defs = parse_hour_text_def strip_def is_space_def parse_p_def parse_I_def

lemma parse_hour_text_12am: "parse_hour_text ''12am'' = Some 0"
  by (simp add: hour_text_defs)

lemma parse_hour_text_1am: "parse_hour_text ''1am'' = Some 1"
  by (simp add: hour_text_defs)

lemma parse_hour_text_12pm: "parse_hour_text ''12pm'' = Some 12"
  by (simp add: hour_text_defs)

text \<open>
  C4. For a date of the calendar whose year has four digits, other than 9999-12-31 (the
  last day a datetime can hold): \<^verbatim>\<open>_to_datetime(y, m, d, "12am")\<close> is 00:00 +08:00 on
  the next calendar day, never on the day itself; \<^verbatim>\<open>_to_datetime(y, m, d, "1am")\<close> is
  01:00 +08:00 on the day itself; and for any hour text that parses, the day moves forward
  exactly when the parsed hour is 0.
\<close>

theorem to_datetime_midnight_next_day:
  assumes "valid_date y m d" and "1000 \<le> y" and "(y, m, d) \<noteq> (9999, 12, 31)"
  shows "(\<exists>t. to_datetime y m d ''12am'' = Inr t \<and> hour t = 0 \<and> minute t = 0
            \<and> utcoffset t = Some 480
            \<and> (year t, month t, day t) =
                (if d < days_in_month y m then (y, m, d + 1)
                 else if m < 12 then (y, m + 1, 1) else (y + 1, 1, 1))
            \<and> (year t, month t, day t) \<noteq> (y, m, d))
       \<and> to_datetime y m d ''1am'' = Inr (stamp y m d 1)
       \<and> (\<forall>hour_text h. parse_hour_text hour_text = Some h \<longrightarrow>
             to_datetime y m d hour_text =
               (if h = 0 then Inr (next_day (stamp y m d 0)) else Inr (stamp y m d h)))"
  using assms
  by (auto simp: to_datetime_def parse_hour_text_12am parse_hour_text_1am add_one_day_def
        next_day_def valid_date_def days_in_month_def stamp_def split: if_splits)

theorem to_datetime_midnight_next_day_witness:
  "valid_date 2016 2 28 \<and> (1000::int) \<le> 2016
   \<and> to_datetime 2016 2 28 ''12am'' = Inr (stamp 2016 2 29 0)
   \<and> to_datetime 2016 2 28 ''1am'' = Inr (stamp 2016 2 28 1)
   \<and> to_datetime 2016 12 31 ''12am'' = Inr (stamp 2017 1 1 0)"
  using to_datetime_midnight_next_day [of 2016 2 28]
    to_datetime_midnight_next_day [of 2016 12 31]
  by (auto simp: calendar_defs stamp_def)

text \<open>
  C10. For a date of the calendar whose year has four digits,
  \<^verbatim>\<open>_to_datetime(y, m, d, "12pm")\<close> is 12:00 +08:00 on the day itself: noon parses to hour
  12, not 0, so the day is not moved.
\<close>

theorem to_datetime_noon_same_day:
  assumes "valid_date y m d" and "1000 \<le> y"
  shows "parse_hour_text ''12pm'' = Some 12
       \<and> to_datetime y m d ''12pm'' = Inr (stamp y m d 12)
       \<and> hour (stamp y m d 12) = 12 \<and> minute (stamp y m d 12) = 0
       \<and> utcoffset (stamp y m d 12) = Some 480"
  using assms by (simp add: to_datetime_def parse_hour_text_12pm stamp_def)

theorem to_datetime_noon_same_day_witness:
  "valid_date 2016 12 31 \<and> (1000::int) \<le> 2016
   \<and> to_datetime 2016 12 31 ''12pm'' = Inr (stamp 2016 12 31 12)"
  using to_datetime_noon_same_day [of 2016 12 31]
  by (simp add: calendar_defs)

section \<open>Properties of the range collector\<close>

text \<open>
  C1. The range 2010-12-31 to 2011-01-01 crosses a year end. The month loop runs over
  \<^verbatim>\<open>range(month_start, month_end + 1)\<close>, here \<^verbatim>\<open>range(12, 2)\<close>, in every year: no
  month is visited, no day is fetched, and the run returns an empty table.
\<close>

theorem download_df_year_end_range_fetches_nothing:
  "schedule 2010 2011 12 1 31 (Some 1) = []
   \<and> download_df fetch today_year 2010 (Some 2011) 12 1 31 (Some 1) verbose
       = Inr ([], \<lparr>columns = [], rows = []\<rparr>)"
  by (simp add: download_df_def schedule_def from_dict_def getitem_columns_def)

section \<open>Properties of the exporter\<close>

lemmas exporter_defs = save_csv_per_day_def loc_slice_def iso_date_def digit_char_def
  next_day_def dt_le_def dt_less_def dt_key_def days_in_month_def is_leap_def stamp_def Let_def

text \<open>
  C2. The table of a collection of 2016-01-01 and 2016-01-02 (first and last reading of
  each day shown) has timestamps on three calendar days, from 2016-01-01 01:00 to
  2016-01-03 00:00. The loop compares the full timestamps: after two steps the current
  value is 2016-01-03 01:00, later than the maximum, so only two files are written and the
  reading of 2016-01-03 00:00 is in neither.
\<close>

theorem save_csv_per_day_three_days_two_files:
  "save_csv_per_day loc_slice
     \<lparr>columns = [''PSI-North''],
      rows = [(stamp 2016 1 1 1, [Some ''55'']), (stamp 2016 1 2 0, [Some ''56'']),
              (stamp 2016 1 2 1, [Some ''57'']), (stamp 2016 1 3 0, [Some ''58''])]\<rparr>
   = [(''2016-01-01.csv'',
        \<lparr>columns = [''PSI-North''], rows = [(stamp 2016 1 1 1, [Some ''55''])]\<rparr>),
      (''2016-01-02.csv'',
        \<lparr>columns = [''PSI-North''],
         rows = [(stamp 2016 1 2 0, [Some ''56'']), (stamp 2016 1 2 1, [Some ''57''])]\<rparr>)]"
  by (simp add: exporter_defs)

text \<open>
  C3. On a table whose index descends, the slice of the one file written is taken from the
  table as given, whatever the slice operation does; the sorted table that
  \<^verbatim>\<open>sort_index\<close> returns is a different one and is not used.
\<close>

theorem save_csv_per_day_slices_unsorted_table:
  "save_csv_per_day slice
     \<lparr>columns = [''PSI-North''],
      rows = [(stamp 2016 1 1 2, [Some ''56'']), (stamp 2016 1 1 1, [Some ''55''])]\<rparr>
   = [(''2016-01-01.csv'',
       slice \<lparr>columns = [''PSI-North''],
               rows = [(stamp 2016 1 1 2, [Some ''56'']), (stamp 2016 1 1 1, [Some ''55''])]\<rparr>
             (stamp 2016 1 1 0) (stamp 2016 1 1 23))]
   \<and> sort_index
       \<lparr>columns = [''PSI-North''],
        rows = [(stamp 2016 1 1 2, [Some ''56'']), (stamp 2016 1 1 1, [Some ''55''])]\<rparr>
     = \<lparr>columns = [''PSI-North''],
        rows = [(stamp 2016 1 1 1, [Some ''55'']), (stamp 2016 1 1 2, [Some ''56''])]\<rparr>"
  by (simp add: exporter_defs sort_index_def)

section \<open>Properties of the day fetcher\<close>

lemma update_fresh: "k \<notin> fst ` set al \<Longrightarrow> AList.update k v al = al @ [(k, v)]"
  by (induction al) auto

lemma set_update_subset: "set (AList.update k v al) \<subseteq> insert (k, v) (set al)"
  by (induction al) auto

lemma read_cells_keys:
  "distinct (map fst acc @ hs) \<Longrightarrow> read_cells items i hs acc = Inr r
     \<Longrightarrow> map fst r = map fst acc @ hs"
proof (induction hs arbitrary: acc i)
  case Nil
  then show ?case by simp
next
  case (Cons h hs)
  from Cons.prems(2) have lt: "i < length items"
    and rec: "read_cells items (i + 1) hs (AList.update h (strip (items ! i)) acc) = Inr r"
    by (auto split: if_splits)
  from Cons.prems(1) have fresh: "h \<notin> fst ` set acc" by auto
  have upd: "AList.update h (strip (items ! i)) acc = acc @ [(h, strip (items ! i))]"
    using fresh by (rule update_fresh)
  have "distinct (map fst (acc @ [(h, strip (items ! i))]) @ hs)"
    using Cons.prems(1) by auto
  from Cons.IH [OF this rec [unfolded upd]] show ?case by simp
qed

lemma read_rows_keys:
  "distinct hs \<Longrightarrow> read_rows hs rws result = Inr res
     \<Longrightarrow> \<forall>(h, r) \<in> set result. map fst r = hs
     \<Longrightarrow> \<forall>(h, r) \<in> set res. map fst r = hs"
proof (induction rws arbitrary: result)
  case Nil
  then show ?case by simp
next
  case (Cons items rest)
  from Cons.prems(2) obtain hour_text tl r where
    items: "items = hour_text # tl" and
    cells: "read_cells items 1 hs [] = Inr r" and
    rec: "read_rows hs rest (AList.update hour_text r result) = Inr res"
    by (auto split: list.splits sum.splits)
  have keys: "map fst r = hs"
    using read_cells_keys [of "[]" hs items 1 r] Cons.prems(1) cells by simp
  have "\<forall>(h, r') \<in> set (AList.update hour_text r result). map fst r' = hs"
    using set_update_subset [of hour_text r result] Cons.prems(3) keys by auto
  from Cons.IH [OF Cons.prems(1) rec this] show ?case .
qed

lemma distinct_all_headers: "distinct (psi_headers @ pm25_headers)"
  unfolding psi_headers_def pm25_headers_def by code_simp

lemma distinct_nea_headers: "distinct (nea_headers dt)"
  using distinct_all_headers by (simp add: nea_headers_def)

lemma get_nea_dict_InrD:
  assumes "get_nea_dict fetch dt = Inr (data, hs)"
  shows "\<exists>rws. fetch (year dt, month dt, day dt) = Inr (Some rws)
           \<and> read_rows (nea_headers dt) (drop 2 rws) [] = Inr data \<and> hs = nea_headers dt"
proof (cases "fetch (year dt, month dt, day dt)")
  case (Inl cause)
  with assms show ?thesis by (simp add: get_nea_dict_def)
next
  case (Inr p)
  show ?thesis
  proof (cases p)
    case None
    with Inr assms show ?thesis by (simp add: get_nea_dict_def)
  next
    case (Some rws)
    with Inr assms show ?thesis
      by (cases "read_rows (nea_headers dt) (drop 2 rws) []") (simp_all add: get_nea_dict_def)
  qed
qed

lemma get_nea_dict_headers:
  assumes "get_nea_dict fetch dt = Inr (data, hs)"
  shows "hs = nea_headers dt \<and> (\<forall>(h, r) \<in> set data. map fst r = nea_headers dt)"
proof -
  from get_nea_dict_InrD [OF assms] obtain rws where
    rd: "read_rows (nea_headers dt) (drop 2 rws) [] = Inr data" and hs: "hs = nea_headers dt"
    by blast
  have "\<forall>(h, r) \<in> set ([] :: (string \<times> row) list). map fst r = nea_headers dt"
    by simp
  from read_rows_keys [OF distinct_nea_headers rd this] hs show ?thesis by blast
qed

lemma before_cutoff:
  "mk_datetime y m d = Inr dt \<Longrightarrow>
     dt_less dt pm_subsume_date = (y < 2014 \<or> (y = 2014 \<and> m < 4))"
  by (auto simp: mk_datetime_def dt_less_def dt_key_def pm_subsume_date_def valid_date_def
        split: if_splits)

text \<open>
  C5. For the date \<^verbatim>\<open>datetime.datetime(y, m, d)\<close>: when it lies strictly before
  2014-04-01 the column list of \<^verbatim>\<open>_get_nea_dict\<close> is the 12-column one, the six PSI
  columns followed by the six PM2.5 columns; on or after 2014-04-01 it is the six PSI
  columns. Whenever \<^verbatim>\<open>_get_nea_dict\<close> returns, it returns that list, and every row it
  returns has exactly those keys in that order.
\<close>

theorem get_nea_dict_schema_by_cutoff:
  assumes "mk_datetime y m d = Inr dt"
  shows "(y < 2014 \<or> (y = 2014 \<and> m < 4) \<longrightarrow>
            nea_headers dt = psi_headers @ pm25_headers)
       \<and> (\<not> (y < 2014 \<or> (y = 2014 \<and> m < 4)) \<longrightarrow> nea_headers dt = psi_headers)
       \<and> length (psi_headers @ pm25_headers) = 12 \<and> length psi_headers = 6
       \<and> (\<forall>fetch data hs. get_nea_dict fetch dt = Inr (data, hs) \<longrightarrow>
             hs = nea_headers dt \<and> (\<forall>(h, r) \<in> set data. map fst r = nea_headers dt))"
proof -
  have sel: "nea_headers dt =
      (if y < 2014 \<or> (y = 2014 \<and> m < 4) then psi_headers @ pm25_headers else psi_headers)"
    using before_cutoff [OF assms] by (simp add: nea_headers_def)
  have len: "length (psi_headers @ pm25_headers) = 12 \<and> length psi_headers = 6"
    by (simp add: psi_headers_def pm25_headers_def)
  have ret: "\<forall>fetch data hs. get_nea_dict fetch dt = Inr (data, hs) \<longrightarrow>
             hs = nea_headers dt \<and> (\<forall>(h, r) \<in> set data. map fst r = nea_headers dt)"
    using get_nea_dict_headers by blast
  from sel have "(y < 2014 \<or> (y = 2014 \<and> m < 4) \<longrightarrow>
            nea_headers dt = psi_headers @ pm25_headers)
       \<and> (\<not> (y < 2014 \<or> (y = 2014 \<and> m < 4)) \<longrightarrow> nea_headers dt = psi_headers)"
    by simp
  with len ret show ?thesis by blast
qed

theorem get_nea_dict_schema_by_cutoff_witness:
  "mk_datetime 2014 3 31
     = Inr \<lparr>year = 2014, month = 3, day = 31, hour = 0, minute = 0, utcoffset = None\<rparr>
   \<and> nea_headers \<lparr>year = 2014, month = 3, day = 31, hour = 0, minute = 0, utcoffset = None\<rparr>
     = psi_headers @ pm25_headers
   \<and> mk_datetime 2014 4 1
     = Inr \<lparr>year = 2014, month = 4, day = 1, hour = 0, minute = 0, utcoffset = None\<rparr>
   \<and> nea_headers \<lparr>year = 2014, month = 4, day = 1, hour = 0, minute = 0, utcoffset = None\<rparr>
     = psi_headers"
proof -
  have a: "mk_datetime 2014 3 31
     = Inr \<lparr>year = 2014, month = 3, day = 31, hour = 0, minute = 0, utcoffset = None\<rparr>"
    by (simp add: mk_datetime_def calendar_defs)
  have b: "mk_datetime 2014 4 1
     = Inr \<lparr>year = 2014, month = 4, day = 1, hour = 0, minute = 0, utcoffset = None\<rparr>"
    by (simp add: mk_datetime_def calendar_defs)
  from get_nea_dict_schema_by_cutoff [OF a] get_nea_dict_schema_by_cutoff [OF b] a b
  show ?thesis by simp
qed

section \<open>Rows that are too short\<close>

lemma read_cells_error: "read_cells items i hs acc = Inl e \<Longrightarrow> e = IndexError"
  by (induction hs arbitrary: i acc) (auto split: if_splits)

lemma read_cells_short:
  "i \<le> length items \<Longrightarrow> length items < i + length hs
     \<Longrightarrow> read_cells items i hs acc = Inl IndexError"
  by (induction hs arbitrary: i acc) auto

lemma read_rows_short:
  "\<exists>items \<in> set rws. length items < 1 + length hs
     \<Longrightarrow> read_rows hs rws result = Inl IndexError"
proof (induction rws arbitrary: result)
  case Nil
  then show ?case by simp
next
  case (Cons items rest)
  show ?case
  proof (cases items)
    case Nil
    then show ?thesis by simp
  next
    case (Cons hour_text tl)
    show ?thesis
    proof (cases "read_cells items 1 hs []")
      case (Inl e)
      with read_cells_error [OF Inl] Cons show ?thesis by simp
    next
      case (Inr r)
      have "\<not> length items < 1 + length hs"
        using read_cells_short [of 1 items hs "[]"] Inr Cons by auto
      with Cons.prems have "\<exists>items \<in> set rest. length items < 1 + length hs" by auto
      from Cons.IH [OF this] Inr Cons show ?thesis by simp
    qed
  qed
qed

lemma get_nea_dict_short:
  assumes "fetch (year dt, month dt, day dt) = Inr (Some rws)"
    and "items \<in> set (drop 2 rws)" and "length items < 1 + length (nea_headers dt)"
  shows "get_nea_dict fetch dt = Inl IndexError"
proof -
  have "read_rows (nea_headers dt) (drop 2 rws) [] = Inl IndexError"
    using assms(2,3) by (intro read_rows_short) blast
  with assms(1) show ?thesis by (simp add: get_nea_dict_def)
qed

lemma run_steps_append:
  "run_steps fetch verbose (xs @ ys) c =
     (case run_steps fetch verbose xs c of
        Inl e \<Rightarrow> Inl e
      | Inr (evs, c') \<Rightarrow>
          (case run_steps fetch verbose ys c' of
             Inl e \<Rightarrow> Inl e
           | Inr (evs', c'') \<Rightarrow> Inr (evs @ evs', c'')))"
  by (induction xs arbitrary: c) (auto split: sum.splits)

lemma run_steps_abort:
  assumes "run_steps fetch verbose pre c = Inr (evs, c')"
    and "run_step fetch verbose s c' = Inl e"
  shows "run_steps fetch verbose (pre @ s # post) c = Inl e"
  using assms by (simp add: run_steps_append)

lemma download_df_abort:
  assumes "schedule ys (case ye of None \<Rightarrow> ty | Some e \<Rightarrow> e) ms me ds de = pre @ s # post"
    and "run_steps fetch verbose pre \<lparr>result_odict = [], df_headers = []\<rparr> = Inr (evs, c')"
    and "run_step fetch verbose s c' = Inl e"
  shows "download_df fetch ty ys ye ms me ds de verbose = Inl e"
  using run_steps_abort [OF assms(2,3), of post] assms(1)
  by (simp add: download_df_def)

lemma process_day_short:
  assumes "valid_date y m d" and "fetch (y, m, d) = Inr (Some rws)"
    and "items \<in> set (drop 2 rws)"
    and "length items < 1 + (if y < 2014 \<or> (y = 2014 \<and> m < 4) then 12 else 6)"
  shows "process_day fetch y m d c = Inl IndexError"
proof -
  define dt where "dt = \<lparr>year = y, month = m, day = d, hour = 0, minute = 0, utcoffset = None\<rparr>"
  have mk: "mk_datetime y m d = Inr dt"
    using assms(1) by (simp add: mk_datetime_def dt_def)
  have len: "length (nea_headers dt) = (if y < 2014 \<or> (y = 2014 \<and> m < 4) then 12 else 6)"
    using before_cutoff [OF mk]
    by (simp add: nea_headers_def psi_headers_def pm25_headers_def)
  have "get_nea_dict fetch dt = Inl IndexError"
    using assms(2,3,4) len by (intro get_nea_dict_short [of _ _ rws items]) (simp_all add: dt_def)
  with mk show ?thesis by (simp add: process_day_def)
qed

lemma schedule_2016_jan_1_2:
  "schedule 2016 2016 1 1 1 (Some 2) = [Month 2016 1, Day 2016 1 1, Day 2016 1 2]"
  by (simp add: schedule_def month_steps_def upto.simps)

text \<open>
  C9 as stated fails: with a short row on 2016-01-01 the run over 2016-01-01..2016-01-02
  does not skip that day and go on; it ends with the \<^verbatim>\<open>IndexError\<close>.
\<close>

theorem short_row_day_not_skipped:
  "download_df short_row_fetch 2016 2016 (Some 2016) 1 1 1 (Some 2) False = Inl IndexError"
proof -
  have "process_day short_row_fetch 2016 1 1 \<lparr>result_odict = [], df_headers = []\<rparr>
          = Inl IndexError"
    by (rule process_day_short [where rws = "the short_row_page" and items = "[''1am'', ''55'', ''54'']"])
       (simp_all add: calendar_defs short_row_fetch_def short_row_page_def)
  then show ?thesis
    by (intro download_df_abort [where pre = "[Month 2016 1]" and post = "[Day 2016 1 2]"
          and s = "Day 2016 1 1" and evs = "[]"
          and c' = "\<lparr>result_odict = [], df_headers = []\<rparr>"])
       (simp_all add: schedule_2016_jan_1_2)
qed

text \<open>
  C9, amended. When a data row of a day's page has fewer cells than the hour text plus one
  per column of the day's schema, \<^verbatim>\<open>_get_nea_dict\<close> raises \<^verbatim>\<open>IndexError\<close>; the
  handler of the day loop catches \<^verbatim>\<open>RequestException\<close> only, so if the run has come as
  far as that day it ends there with the \<^verbatim>\<open>IndexError\<close>: no table is returned and
  the later days are not fetched.
\<close>

theorem short_row_aborts_run:
  assumes "schedule ys (case ye of None \<Rightarrow> ty | Some e \<Rightarrow> e) ms me ds de
             = pre @ Day y m d # post"
    and "run_steps fetch verbose pre \<lparr>result_odict = [], df_headers = []\<rparr> = Inr (evs, c)"
    and "mk_datetime y m d = Inr dt"
    and "fetch (y, m, d) = Inr (Some rws)"
    and "items \<in> set (drop 2 rws)"
    and "length items < 1 + length (nea_headers dt)"
  shows "get_nea_dict fetch dt = Inl IndexError
       \<and> process_day fetch y m d c = Inl IndexError
       \<and> download_df fetch ty ys ye ms me ds de verbose = Inl IndexError"
proof -
  from assms(3) have valid: "valid_date y m d"
    and dt: "dt = \<lparr>year = y, month = m, day = d, hour = 0, minute = 0, utcoffset = None\<rparr>"
    by (auto simp: mk_datetime_def split: if_splits)
  have g: "get_nea_dict fetch dt = Inl IndexError"
    using assms(4,5,6) by (intro get_nea_dict_short [of _ _ rws items]) (simp_all add: dt)
  with assms(3) have p: "process_day fetch y m d c = Inl IndexError"
    by (simp add: process_day_def)
  then have "run_step fetch verbose (Day y m d) c = Inl IndexError" by simp
  from download_df_abort [OF assms(1,2) this] g p show ?thesis by simp
qed

theorem short_row_aborts_run_witness:
  "schedule 2016 (case Some 2016 of None \<Rightarrow> 2016 | Some e \<Rightarrow> e) 1 1 1 (Some 2)
     = [Month 2016 1] @ Day 2016 1 1 # [Day 2016 1 2]
   \<and> run_steps short_row_fetch False [Month 2016 1] \<lparr>result_odict = [], df_headers = []\<rparr>
     = Inr ([], \<lparr>result_odict = [], df_headers = []\<rparr>)
   \<and> mk_datetime 2016 1 1
     = Inr \<lparr>year = 2016, month = 1, day = 1, hour = 0, minute = 0, utcoffset = None\<rparr>
   \<and> short_row_fetch (2016, 1, 1) = Inr short_row_page
   \<and> get_nea_dict short_row_fetch
       \<lparr>year = 2016, month = 1, day = 1, hour = 0, minute = 0, utcoffset = None\<rparr>
     = Inl IndexError
   \<and> download_df short_row_fetch 2016 2016 (Some 2016) 1 1 1 (Some 2) False
     = Inl IndexError"
proof -
  have a: "schedule 2016 (case Some 2016 of None \<Rightarrow> 2016 | Some e \<Rightarrow> e) 1 1 1 (Some 2)
     = [Month 2016 1] @ Day 2016 1 1 # [Day 2016 1 2]"
    by (simp add: schedule_2016_jan_1_2)
  have b: "run_steps short_row_fetch False [Month 2016 1]
      \<lparr>result_odict = [], df_headers = []\<rparr>
     = Inr ([], \<lparr>result_odict = [], df_headers = []\<rparr>)"
    by simp
  have c: "mk_datetime 2016 1 1
     = Inr \<lparr>year = 2016, month = 1, day = 1, hour = 0, minute = 0, utcoffset = None\<rparr>"
    by (simp add: mk_datetime_def calendar_defs)
  have d: "short_row_fetch (2016, 1, 1)
     = Inr (Some [[''Time'', ''PSI''],
      [''North'', ''South'', ''East'', ''West'', ''Central'', ''Overall''],
      [''1am'', ''55'', ''54''],
      [''12am'', ''65'', ''64'', ''63'', ''62'', ''61'', ''65'']])"
    by (simp add: short_row_fetch_def short_row_page_def)
  have e: "[''1am'', ''55'', ''54''] \<in> set (drop 2 [[''Time'', ''PSI''],
      [''North'', ''South'', ''East'', ''West'', ''Central'', ''Overall''],
      [''1am'', ''55'', ''54''],
      [''12am'', ''65'', ''64'', ''63'', ''62'', ''61'', ''65'']])"
    by simp
  have f: "length [''1am'', ''55'', ''54'']
     < 1 + length (nea_headers
         \<lparr>year = 2016, month = 1, day = 1, hour = 0, minute = 0, utcoffset = None\<rparr>)"
    by (simp add: nea_headers_def dt_less_def dt_key_def pm_subsume_date_def psi_headers_def)
  from short_row_aborts_run [OF a b c d e f] a b c d show ?thesis
    by (simp add: short_row_page_def)
qed

section \<open>Hour labels that do not parse\<close>

lemma parse_p_tokens: "(parse_p s \<noteq> None) = (s \<in> set meridiem_tokens)"
  by (auto simp: parse_p_def meridiem_tokens_def split: list.splits)

lemma parse_I_tokens: "(parse_I s \<noteq> None) = (s \<in> set hour_tokens)"
  by (auto simp: parse_I_def hour_tokens_def split: list.splits)

lemma dropWhile_all_append:
  "list_all P xs \<Longrightarrow> ys \<noteq> [] \<Longrightarrow> \<not> P (hd ys) \<Longrightarrow> dropWhile P (xs @ ys) = ys"
  by (induction xs) (auto simp: neq_Nil_conv)

lemma strip_sandwich:
  assumes "list_all is_space l" and "list_all is_space r"
    and "t \<noteq> []" and "\<not> is_space (hd t)" and "\<not> is_space (last t)"
  shows "strip (l @ t @ r) = t"
proof -
  have 1: "dropWhile is_space (l @ t @ r) = t @ r"
    using assms(1,3,4) by (intro dropWhile_all_append) auto
  have "dropWhile is_space (rev r @ rev t) = rev t"
    using assms(2,3,5) by (intro dropWhile_all_append) (auto simp: hd_rev)
  with 1 show ?thesis by (simp add: strip_def)
qed

lemma strip_decompose:
  "\<exists>l r. s = l @ strip s @ r \<and> list_all is_space l \<and> list_all is_space r"
proof -
  let ?l = "takeWhile is_space s"
  let ?m = "dropWhile is_space s"
  let ?r = "rev (takeWhile is_space (rev ?m))"
  have "rev ?m = takeWhile is_space (rev ?m) @ dropWhile is_space (rev ?m)" by simp
  then have "?m = rev (dropWhile is_space (rev ?m)) @ ?r"
    by (metis rev_append rev_rev_ident)
  then have "s = ?l @ strip s @ ?r"
    by (metis strip_def takeWhile_dropWhile_id)
  moreover have "list_all is_space ?l" "list_all is_space ?r"
    by (auto simp: list_all_iff dest: set_takeWhileD)
  ultimately show ?thesis by blast
qed

lemma hour_token_ends:
  "h \<in> set hour_tokens \<Longrightarrow> h \<noteq> [] \<and> \<not> is_space (hd h)"
  by (auto simp: hour_tokens_def is_space_def)

lemma meridiem_token_ends:
  "p \<in> set meridiem_tokens \<Longrightarrow> length p = 2 \<and> \<not> is_space (last p)"
  by (auto simp: meridiem_tokens_def is_space_def)

lemma parse_hour_text_tokens:
  "(parse_hour_text s \<noteq> None) =
     (\<exists>h p. strip s = h @ p \<and> h \<in> set hour_tokens \<and> p \<in> set meridiem_tokens)"
proof
  assume "parse_hour_text s \<noteq> None"
  then have p: "parse_p (drop (length (strip s) - 2) (strip s)) \<noteq> None"
    and h: "parse_I (take (length (strip s) - 2) (strip s)) \<noteq> None"
    by (auto simp: parse_hour_text_def Let_def split: option.splits)
  have "strip s = take (length (strip s) - 2) (strip s) @ drop (length (strip s) - 2) (strip s)"
    by simp
  with p h show "\<exists>h p. strip s = h @ p \<and> h \<in> set hour_tokens \<and> p \<in> set meridiem_tokens"
    unfolding parse_p_tokens parse_I_tokens by blast
next
  assume "\<exists>h p. strip s = h @ p \<and> h \<in> set hour_tokens \<and> p \<in> set meridiem_tokens"
  then obtain h p where s: "strip s = h @ p" and h: "h \<in> set hour_tokens"
    and p: "p \<in> set meridiem_tokens" by blast
  from meridiem_token_ends [OF p] have lp: "length p = 2" by simp
  have d: "drop (length (strip s) - 2) (strip s) = p"
    and t: "take (length (strip s) - 2) (strip s) = h"
    using lp by (simp_all add: s)
  from h p have "parse_I h \<noteq> None" "parse_p p \<noteq> None"
    by (simp_all only: parse_p_tokens parse_I_tokens)
  then show "parse_hour_text s \<noteq> None"
    by (auto simp: parse_hour_text_def Let_def d t)
qed

lemma parse_hour_text_format: "(parse_hour_text s \<noteq> None) = accepted_hour_label s"
proof
  assume "parse_hour_text s \<noteq> None"
  then obtain h p where s: "strip s = h @ p" and h: "h \<in> set hour_tokens"
    and p: "p \<in> set meridiem_tokens"
    unfolding parse_hour_text_tokens by blast
  from strip_decompose [of s] obtain l r where
    "s = l @ strip s @ r" "list_all is_space l" "list_all is_space r" by blast
  with s h p show "accepted_hour_label s"
    unfolding accepted_hour_label_def by (intro exI [of _ l] exI [of _ h] exI [of _ p] exI [of _ r]) simp
next
  assume "accepted_hour_label s"
  then obtain l h p r where s: "s = l @ h @ p @ r" and l: "list_all is_space l"
    and r: "list_all is_space r" and h: "h \<in> set hour_tokens" and p: "p \<in> set meridiem_tokens"
    unfolding accepted_hour_label_def by blast
  from meridiem_token_ends [OF p] have "p \<noteq> []" by auto
  with hour_token_ends [OF h] meridiem_token_ends [OF p]
  have "h @ p \<noteq> []" "\<not> is_space (hd (h @ p))" "\<not> is_space (last (h @ p))"
    by (auto simp: hd_append)
  from strip_sandwich [OF l r this] have "strip s = h @ p" by (simp add: s)
  with h p show "parse_hour_text s \<noteq> None"
    unfolding parse_hour_text_tokens by blast
qed


lemma to_datetime_ValueError:
  assumes "valid_date y m d" and "1000 \<le> y"
  shows "(to_datetime y m d hour_text = Inl ValueError) = (\<not> accepted_hour_label hour_text)"
  using assms parse_hour_text_format [of hour_text]
  by (auto simp: to_datetime_def add_one_day_def Let_def split: option.splits)

lemma to_datetime_Inr:
  assumes "valid_date y m d" and "1000 \<le> y" and "(y, m, d) \<noteq> (9999, 12, 31)"
    and "accepted_hour_label hour_text"
  shows "\<exists>t. to_datetime y m d hour_text = Inr t"
proof -
  from assms(4) obtain h where "parse_hour_text hour_text = Some h"
    using parse_hour_text_format [of hour_text] by auto
  with assms(1,2,3) show ?thesis
    by (auto simp: to_datetime_def add_one_day_def next_day_def valid_date_def
          days_in_month_def Let_def split: if_splits)
qed

lemma insert_rows_bad_label:
  assumes "valid_date y m d" and "1000 \<le> y" and "(y, m, d) \<noteq> (9999, 12, 31)"
  shows "\<exists>(h, r) \<in> set data. \<not> accepted_hour_label h
           \<Longrightarrow> insert_rows y m d data od = Inl ValueError"
proof (induction data arbitrary: od)
  case Nil
  then show ?case by simp
next
  case (Cons hr rest)
  obtain h r where hr: "hr = (h, r)" by (cases hr)
  show ?case
  proof (cases "accepted_hour_label h")
    case True
    from to_datetime_Inr [OF assms True] obtain t where t: "to_datetime y m d h = Inr t" ..
    from True Cons.prems hr have "\<exists>(h, r) \<in> set rest. \<not> accepted_hour_label h" by auto
    from Cons.IH [OF this] t hr show ?thesis by simp
  next
    case False
    then have "to_datetime y m d h = Inl ValueError"
      using to_datetime_ValueError [OF assms(1,2)] by simp
    with hr show ?thesis by simp
  qed
qed

lemma get_nea_dict_bad_label_page:
  "get_nea_dict bad_label_fetch
       \<lparr>year = 2016, month = 1, day = 1, hour = 0, minute = 0, utcoffset = None\<rparr>
     = Inr ([(''1am'', zip psi_headers [''55'', ''54'', ''53'', ''52'', ''51'', ''55'']),
             (''13am'', zip psi_headers [''65'', ''64'', ''63'', ''62'', ''61'', ''65''])],
            psi_headers)"
  by (simp add: get_nea_dict_def bad_label_fetch_def bad_label_page_def nea_headers_def
        dt_less_def dt_key_def pm_subsume_date_def psi_headers_def strip_def is_space_def)

lemma spec_hour_label_accepted:
  assumes "spec_hour_label s"
  shows "accepted_hour_label s"
proof -
  from assms obtain h p where s: "s = h @ p" and h: "h \<in> set spec_hours"
    and p: "p = ''am'' \<or> p = ''pm''"
    by (auto simp: spec_hour_label_def)
  from h have "h \<in> set hour_tokens" by (auto simp: spec_hours_def hour_tokens_def)
  moreover from p have "p \<in> set meridiem_tokens" by (auto simp: meridiem_tokens_def)
  ultimately show ?thesis
    unfolding accepted_hour_label_def
    by (intro exI [of _ "[]"] exI [of _ h] exI [of _ p]) (simp add: s)
qed

text \<open>
  C8 as stated fails in one direction: \<^verbatim>\<open>' 1AM'\<close> and \<^verbatim>\<open>'01am'\<close> are not of the form
  \<^verbatim>\<open><hour><am|pm>\<close>, and \<^verbatim>\<open>_to_datetime\<close> reads both as 01:00 without an error.
\<close>

theorem label_outside_format_parses:
  "\<not> spec_hour_label '' 1AM'' \<and> to_datetime 2016 1 1 '' 1AM'' = Inr (stamp 2016 1 1 1)
   \<and> \<not> spec_hour_label ''01am'' \<and> to_datetime 2016 1 1 ''01am'' = Inr (stamp 2016 1 1 1)"
  by (simp add: spec_hour_label_def spec_hours_def to_datetime_def hour_text_defs calendar_defs
        stamp_def)

text \<open>
  C8, amended. For a date of the calendar whose year has four digits:
  \<^verbatim>\<open>_to_datetime\<close> raises the parse error (\<^verbatim>\<open>ValueError\<close>) exactly for the hour texts
  that, once the whitespace around them is dropped, are not an hour from 1 to 12 (a
  one-digit hour may carry a leading zero) directly followed by am or pm in either case;
  every label of the form \<^verbatim>\<open><hour><am|pm>\<close> is read without error. And when a page that
  was fetched and read for such a date (not the last day a datetime can hold) has a row
  whose hour text raises the parse error, the error is not caught by the day loop: if the
  run has come as far as that day, it ends there with the \<^verbatim>\<open>ValueError\<close> and returns no
  table.
\<close>

theorem parse_error_iff_format_and_aborts_run:
  assumes "valid_date y m d" and "1000 \<le> y" and "(y, m, d) \<noteq> (9999, 12, 31)"
    and "schedule ys (case ye of None \<Rightarrow> ty | Some e \<Rightarrow> e) ms me ds de
           = pre @ Day y m d # post"
    and "run_steps fetch verbose pre \<lparr>result_odict = [], df_headers = []\<rparr> = Inr (evs, c)"
    and "get_nea_dict fetch
           \<lparr>year = y, month = m, day = d, hour = 0, minute = 0, utcoffset = None\<rparr>
           = Inr (data, hs)"
    and "(h, r) \<in> set data" and "\<not> accepted_hour_label h"
  shows "(\<forall>hour_text. (to_datetime y m d hour_text = Inl ValueError)
                          = (\<not> accepted_hour_label hour_text))
       \<and> (\<forall>hour_text. spec_hour_label hour_text \<longrightarrow> accepted_hour_label hour_text)
       \<and> process_day fetch y m d c = Inl ValueError
       \<and> download_df fetch ty ys ye ms me ds de verbose = Inl ValueError"
proof -
  have a: "\<forall>hour_text. (to_datetime y m d hour_text = Inl ValueError)
                          = (\<not> accepted_hour_label hour_text)"
    using to_datetime_ValueError [OF assms(1,2)] by blast
  have s: "\<forall>hour_text. spec_hour_label hour_text \<longrightarrow> accepted_hour_label hour_text"
    using spec_hour_label_accepted by blast
  have "insert_rows y m d data (result_odict c) = Inl ValueError"
    using assms(7,8) by (intro insert_rows_bad_label [OF assms(1,2,3)]) blast
  with assms(1,6) have p: "process_day fetch y m d c = Inl ValueError"
    by (simp add: process_day_def mk_datetime_def)
  then have "run_step fetch verbose (Day y m d) c = Inl ValueError" by simp
  from download_df_abort [OF assms(4,5) this] a s p show ?thesis by blast
qed

theorem parse_error_iff_format_and_aborts_run_witness:
  "valid_date 2016 1 1 \<and> (1000::int) \<le> 2016
   \<and> schedule 2016 (case Some 2016 of None \<Rightarrow> 2016 | Some e \<Rightarrow> e) 1 1 1 (Some 2)
     = [Month 2016 1] @ Day 2016 1 1 # [Day 2016 1 2]
   \<and> run_steps bad_label_fetch False [Month 2016 1] \<lparr>result_odict = [], df_headers = []\<rparr>
     = Inr ([], \<lparr>result_odict = [], df_headers = []\<rparr>)
   \<and> \<not> accepted_hour_label ''13am''
   \<and> to_datetime 2016 1 1 ''13am'' = Inl ValueError
   \<and> (to_datetime 2016 1 1 '' 1AM'' = Inl ValueError) = (\<not> accepted_hour_label '' 1AM'')
   \<and> accepted_hour_label ''12pm''
   \<and> download_df bad_label_fetch 2016 2016 (Some 2016) 1 1 1 (Some 2) False
     = Inl ValueError"
proof -
  have v: "valid_date 2016 1 1" by (simp add: calendar_defs)
  have y: "(1000::int) \<le> 2016" by simp
  have n: "((2016, 1, 1) :: int \<times> int \<times> int) \<noteq> (9999, 12, 31)" by simp
  have a: "schedule 2016 (case Some 2016 of None \<Rightarrow> 2016 | Some e \<Rightarrow> e) 1 1 1 (Some 2)
     = [Month 2016 1] @ Day 2016 1 1 # [Day 2016 1 2]"
    by (simp add: schedule_2016_jan_1_2)
  have b: "run_steps bad_label_fetch False [Month 2016 1]
      \<lparr>result_odict = [], df_headers = []\<rparr>
     = Inr ([], \<lparr>result_odict = [], df_headers = []\<rparr>)"
    by simp
  have m: "(''13am'', zip psi_headers [''65'', ''64'', ''63'', ''62'', ''61'', ''65''])
     \<in> set [(''1am'', zip psi_headers [''55'', ''54'', ''53'', ''52'', ''51'', ''55'']),
             (''13am'', zip psi_headers [''65'', ''64'', ''63'', ''62'', ''61'', ''65''])]"
    by simp
  have "parse_hour_text ''13am'' = None" by (simp add: hour_text_defs)
  then have f: "\<not> accepted_hour_label ''13am''"
    using parse_hour_text_format [of "''13am''"] by simp
  have g: "spec_hour_label ''12pm''"
    by (simp add: spec_hour_label_def spec_hours_def)
  from parse_error_iff_format_and_aborts_run
         [OF v y n a b get_nea_dict_bad_label_page m f] v a b f g
  show ?thesis by simp
qed

section \<open>One failed day\<close>






































section \<open>A range across the cutoff\<close>








end
